theory Spec2Isabelle
  imports Complex_Main
begin

section \<open>Fatigue analysis service: data model\<close>

text \<open>
  The embedding follows \<^verbatim>\<open>fastapi_fatigue_analysis.py\<close>. A finite Python \<^verbatim>\<open>float\<close> is a
  \<^typ>\<open>real\<close> (infinities and NaN are left out), Python's unbounded \<^verbatim>\<open>int\<close> is \<^typ>\<open>int\<close>,
  and \<^verbatim>\<open>str\<close> is \<^typ>\<open>string\<close>. Every exception the interpreter can raise on these lines is
  a value of \<open>py_error\<close>.

  The evaluator is given twice. \<open>analyze_fatigue\<close> computes with exact quotients, and
  serves for what does not depend on rounding: which error is raised and when, the numbers
  of scenarios that lie far from a boundary, the relation between the fields of a result.
  \<open>analyze_fatigue_fl\<close> takes the machine's rounded operations as a parameter; the life
  estimate, which a rounding error of one unit in the last place can move across the
  endurance limit or across an integer, is stated on it. The first is the second at the
  exact operations (\<open>analyze_fatigue_exact\<close>).
\<close>

record FatigueInput =
  stress_amplitude :: real
  mean_stress :: real
  cycles :: int
  material :: string
  safety_factor :: "real option"

record FatigueResult =
  cycles_to_failure :: int
  safety_margin :: real
  is_safe :: bool
  analysis_method :: string

text \<open>One entry of the dictionary \<^verbatim>\<open>material_props\<close>.\<close>

record MaterialProps =
  endurance_limit :: real
  fatigue_strength_coeff :: real

text \<open>
  The exceptions of \<^verbatim>\<open>analyze_fatigue\<close>, each with the text that \<^verbatim>\<open>str(e)\<close> gives
  (the wording of the interpreter's own messages is that of CPython 3.11).
\<close>

datatype py_error = ValueError string | ZeroDivisionError string | TypeError string

fun str_exc :: "py_error \<Rightarrow> string" where
  "str_exc (ValueError msg) = msg"
| "str_exc (ZeroDivisionError msg) = msg"
| "str_exc (TypeError msg) = msg"

datatype http_error = HTTPException (status_code: nat) (detail: string)

text \<open>
  Construction of a \<^verbatim>\<open>FatigueInput\<close>: the last argument is \<open>None\<close> when the caller omits
  \<^verbatim>\<open>safety_factor\<close> (the field's default \<^verbatim>\<open>2.0\<close> applies) and \<open>Some v\<close> when the caller
  gives it, where \<open>v = None\<close> is an explicit null, which \<^verbatim>\<open>Optional[float]\<close> admits.
\<close>

definition FatigueInput_init ::
  "real \<Rightarrow> real \<Rightarrow> int \<Rightarrow> string \<Rightarrow> real option option \<Rightarrow> FatigueInput" where
  "FatigueInput_init sa ms n m sf =
     \<lparr>stress_amplitude = sa, mean_stress = ms, cycles = n, material = m,
      safety_factor = (case sf of None \<Rightarrow> Some 2 | Some v \<Rightarrow> v)\<rparr>"

section \<open>Strings\<close>

definition ascii_uppercase :: string where
  "ascii_uppercase = ''ABCDEFGHIJKLMNOPQRSTUVWXYZ''"

definition ascii_lowercase :: string where
  "ascii_lowercase = ''abcdefghijklmnopqrstuvwxyz''"

text \<open>
  \<^verbatim>\<open>str.lower()\<close> on ASCII text: the letters A to Z go to a to z, every other character
  stays. (On a non-ASCII letter Python's \<^verbatim>\<open>lower\<close> never yields a letter of
  \<^verbatim>\<open>steel\<close> or \<^verbatim>\<open>aluminum\<close>, so the set of accepted identifiers is the same.)
\<close>

definition lower_char :: "char \<Rightarrow> char" where
  "lower_char c =
     (case map_of (zip ascii_uppercase ascii_lowercase) c of Some l \<Rightarrow> l | None \<Rightarrow> c)"

definition lower :: "string \<Rightarrow> string" where
  "lower s = map lower_char s"

text \<open>A text between single quotes, as the messages of the exceptions have it.\<close>

definition quoted :: "string \<Rightarrow> string" where
  "quoted s = [CHR 0x27] @ s @ [CHR 0x27]"

text \<open>\<^verbatim>\<open>str(n)\<close> for a non-negative integer: its decimal digits.\<close>

fun str_nat :: "nat \<Rightarrow> string" where
  "str_nat n =
     (if n < 10 then [''0123456789'' ! n]
      else str_nat (n div 10) @ [''0123456789'' ! (n mod 10)])"

section \<open>Arithmetic of the interpreter\<close>

text \<open>\<^verbatim>\<open>a / b\<close> with a float operand raises on a zero divisor, whatever \<open>a\<close> is.\<close>

definition py_truediv :: "real \<Rightarrow> real \<Rightarrow> py_error + real" where
  "py_truediv a b =
     (if b = 0 then Inl (ZeroDivisionError ''float division by zero'') else Inr (a / b))"

text \<open>\<^verbatim>\<open>a / b\<close> on two integers is true division and gives a float.\<close>

definition py_int_truediv :: "int \<Rightarrow> int \<Rightarrow> py_error + real" where
  "py_int_truediv a b =
     (if b = 0 then Inl (ZeroDivisionError ''division by zero'')
      else Inr (real_of_int a / real_of_int b))"

text \<open>\<^verbatim>\<open>int(x)\<close> on a float drops the fractional part: it rounds toward zero.\<close>

definition py_int :: "real \<Rightarrow> int" where
  "py_int x = (if 0 \<le> x then \<lfloor>x\<rfloor> else \<lceil>x\<rceil>)"

text \<open>\<^verbatim>\<open>x >= y\<close> where \<open>y\<close> may be \<^verbatim>\<open>None\<close>: a float does not compare with \<^verbatim>\<open>None\<close>.\<close>

definition py_ge :: "real \<Rightarrow> real option \<Rightarrow> py_error + bool" where
  "py_ge x y =
     (case y of
        None \<Rightarrow> Inl (TypeError
          (quoted ''>='' @ '' not supported between instances of '' @ quoted ''float''
             @ '' and '' @ quoted ''NoneType''))
      | Some v \<Rightarrow> Inr (x \<ge> v))"

section \<open>The evaluator\<close>

definition material_props :: "string \<rightharpoonup> MaterialProps" where
  "material_props =
     [''steel'' \<mapsto> \<lparr>endurance_limit = 200, fatigue_strength_coeff = 900\<rparr>,
      ''aluminum'' \<mapsto> \<lparr>endurance_limit = 130, fatigue_strength_coeff = 620\<rparr>]"

definition unsupported_message :: "string \<Rightarrow> string" where
  "unsupported_message m = ''Material '' @ quoted m @ '' not supported''"

text \<open>
  Line 42 in exact arithmetic: the Goodman correction, with both of its divisions.
\<close>

definition goodman_equivalent_stress :: "FatigueInput \<Rightarrow> MaterialProps \<Rightarrow> py_error + real" where
  "goodman_equivalent_stress data props =
     (case py_truediv (mean_stress data) (fatigue_strength_coeff props) of
        Inl e \<Rightarrow> Inl e
      | Inr ratio \<Rightarrow> py_truediv (stress_amplitude data) (1 - ratio))"

text \<open>
  Lines 45 to 49 in exact arithmetic: the life estimate from the equivalent stress.
\<close>

definition sn_cycles_to_failure :: "MaterialProps \<Rightarrow> real \<Rightarrow> py_error + int" where
  "sn_cycles_to_failure props equivalent_stress =
     (if equivalent_stress \<le> endurance_limit props then Inr 10000000
      else (case py_truediv (fatigue_strength_coeff props) equivalent_stress of
              Inl e \<Rightarrow> Inl e
            | Inr q \<Rightarrow> Inr (py_int (q ^ 3 * 1000))))"

definition method_label :: string where
  "method_label = ''Simplified S-N Curve with Goodman Correction''"

definition analyze_fatigue :: "FatigueInput \<Rightarrow> py_error + FatigueResult" where
  "analyze_fatigue data =
     (case material_props (lower (material data)) of
        None \<Rightarrow> Inl (ValueError (unsupported_message (material data)))
      | Some props \<Rightarrow>
         (case goodman_equivalent_stress data props of
            Inl e \<Rightarrow> Inl e
          | Inr equivalent_stress \<Rightarrow>
             (case sn_cycles_to_failure props equivalent_stress of
                Inl e \<Rightarrow> Inl e
              | Inr ctf \<Rightarrow>
                 (case py_int_truediv ctf (cycles data) of
                    Inl e \<Rightarrow> Inl e
                  | Inr margin \<Rightarrow>
                     (case py_ge margin (safety_factor data) of
                        Inl e \<Rightarrow> Inl e
                      | Inr safe \<Rightarrow>
                          Inr \<lparr>cycles_to_failure = ctf, safety_margin = margin,
                               is_safe = safe, analysis_method = method_label\<rparr>)))))"

section \<open>The endpoints\<close>

text \<open>\<^verbatim>\<open>POST /analyze\<close>: any exception becomes a 400 with the exception's text.\<close>

definition run_fatigue_analysis :: "FatigueInput \<Rightarrow> http_error + FatigueResult" where
  "run_fatigue_analysis input_data =
     (case analyze_fatigue input_data of
        Inl e \<Rightarrow> Inl (HTTPException 400 (str_exc e))
      | Inr result \<Rightarrow> Inr result)"

text \<open>
  \<^verbatim>\<open>POST /analyze_batch\<close>: the loop over \<^verbatim>\<open>enumerate(input_data)\<close>, with the index
  \<open>i\<close> and the list \<open>results\<close> built so far.
\<close>

fun batch_loop ::
  "nat \<Rightarrow> FatigueInput list \<Rightarrow> FatigueResult list \<Rightarrow> http_error + FatigueResult list" where
  "batch_loop i [] results = Inr results"
| "batch_loop i (data # rest) results =
     (case analyze_fatigue data of
        Inr result \<Rightarrow> batch_loop (i + 1) rest (results @ [result])
      | Inl e \<Rightarrow>
          Inl (HTTPException 400
                 (''Error in dataset '' @ str_nat (i + 1) @ '': '' @ str_exc e)))"

definition run_batch_analysis :: "FatigueInput list \<Rightarrow> http_error + FatigueResult list" where
  "run_batch_analysis input_data = batch_loop 0 input_data []"

section \<open>The evaluator on a rounding machine\<close>

text \<open>
  The float operations of lines 42 to 51, each giving the machine's rounded result on
  finite operands: \<^verbatim>\<open>a / b\<close> and \<^verbatim>\<open>a - b\<close> and \<^verbatim>\<open>a * b\<close> on floats, \<^verbatim>\<open>a ** n\<close> on a float
  and an integer exponent, and \<^verbatim>\<open>a / b\<close> on two integers. Integers that meet a float (the
  table's constants, \<^verbatim>\<open>1\<close>, \<^verbatim>\<open>1000\<close>) convert exactly; comparisons and \<^verbatim>\<open>int()\<close> are exact.
\<close>

record float_ops =
  fl_truediv :: "real \<Rightarrow> real \<Rightarrow> real"
  fl_sub :: "real \<Rightarrow> real \<Rightarrow> real"
  fl_mul :: "real \<Rightarrow> real \<Rightarrow> real"
  fl_pow :: "real \<Rightarrow> nat \<Rightarrow> real"
  fl_int_truediv :: "int \<Rightarrow> int \<Rightarrow> real"

text \<open>The machine that does not round.\<close>

definition exact_ops :: float_ops where
  "exact_ops =
     \<lparr>fl_truediv = (\<lambda>a b. a / b), fl_sub = (\<lambda>a b. a - b), fl_mul = (\<lambda>a b. a * b),
      fl_pow = (\<lambda>a n. a ^ n), fl_int_truediv = (\<lambda>a b. real_of_int a / real_of_int b)\<rparr>"

text \<open>
  Rounding never turns a non-negative exact result into a negative one; IEEE arithmetic
  has this property in every rounding mode.
\<close>

definition sign_preserving :: "float_ops \<Rightarrow> bool" where
  "sign_preserving ops \<longleftrightarrow>
     (\<forall>a b. 0 \<le> a \<and> 0 < b \<longrightarrow> 0 \<le> fl_truediv ops a b)
   \<and> (\<forall>a b. 0 \<le> a \<and> 0 \<le> b \<longrightarrow> 0 \<le> fl_mul ops a b)
   \<and> (\<forall>a n. 0 \<le> a \<longrightarrow> 0 \<le> fl_pow ops a n)"

definition py_truediv_fl :: "float_ops \<Rightarrow> real \<Rightarrow> real \<Rightarrow> py_error + real" where
  "py_truediv_fl ops a b =
     (if b = 0 then Inl (ZeroDivisionError ''float division by zero'')
      else Inr (fl_truediv ops a b))"

definition py_int_truediv_fl :: "float_ops \<Rightarrow> int \<Rightarrow> int \<Rightarrow> py_error + real" where
  "py_int_truediv_fl ops a b =
     (if b = 0 then Inl (ZeroDivisionError ''division by zero'')
      else Inr (fl_int_truediv ops a b))"

text \<open>Line 42, the zero test of the outer division being on the rounded denominator.\<close>

definition goodman_equivalent_stress_fl ::
  "float_ops \<Rightarrow> FatigueInput \<Rightarrow> MaterialProps \<Rightarrow> py_error + real" where
  "goodman_equivalent_stress_fl ops data props =
     (case py_truediv_fl ops (mean_stress data) (fatigue_strength_coeff props) of
        Inl e \<Rightarrow> Inl e
      | Inr ratio \<Rightarrow> py_truediv_fl ops (stress_amplitude data) (fl_sub ops 1 ratio))"

text \<open>Lines 45 to 49, the comparison being on the rounded equivalent stress.\<close>

definition sn_cycles_to_failure_fl ::
  "float_ops \<Rightarrow> MaterialProps \<Rightarrow> real \<Rightarrow> py_error + int" where
  "sn_cycles_to_failure_fl ops props equivalent_stress =
     (if equivalent_stress \<le> endurance_limit props then Inr 10000000
      else (case py_truediv_fl ops (fatigue_strength_coeff props) equivalent_stress of
              Inl e \<Rightarrow> Inl e
            | Inr q \<Rightarrow> Inr (py_int (fl_mul ops (fl_pow ops q 3) 1000))))"

definition analyze_fatigue_fl :: "float_ops \<Rightarrow> FatigueInput \<Rightarrow> py_error + FatigueResult" where
  "analyze_fatigue_fl ops data =
     (case material_props (lower (material data)) of
        None \<Rightarrow> Inl (ValueError (unsupported_message (material data)))
      | Some props \<Rightarrow>
         (case goodman_equivalent_stress_fl ops data props of
            Inl e \<Rightarrow> Inl e
          | Inr equivalent_stress \<Rightarrow>
             (case sn_cycles_to_failure_fl ops props equivalent_stress of
                Inl e \<Rightarrow> Inl e
              | Inr ctf \<Rightarrow>
                 (case py_int_truediv_fl ops ctf (cycles data) of
                    Inl e \<Rightarrow> Inl e
                  | Inr margin \<Rightarrow>
                     (case py_ge margin (safety_factor data) of
                        Inl e \<Rightarrow> Inl e
                      | Inr safe \<Rightarrow>
                          Inr \<lparr>cycles_to_failure = ctf, safety_margin = margin,
                               is_safe = safe, analysis_method = method_label\<rparr>)))))"

text \<open>
  A coarse machine for experiments: every result is rounded down to a multiple of
  \<open>1/1024\<close>.
\<close>

definition chop :: "real \<Rightarrow> real" where
  "chop x = real_of_int \<lfloor>x * 1024\<rfloor> / 1024"

definition coarse_ops :: float_ops where
  "coarse_ops =
     \<lparr>fl_truediv = (\<lambda>a b. chop (a / b)), fl_sub = (\<lambda>a b. chop (a - b)),
      fl_mul = (\<lambda>a b. chop (a * b)), fl_pow = (\<lambda>a n. chop (a ^ n)),
      fl_int_truediv = (\<lambda>a b. chop (real_of_int a / real_of_int b))\<rparr>"

section \<open>Vocabulary of the specification\<close>

text \<open>
  The specification names two failures of the arithmetic. The code has no check of its own
  for either: each is the \<^verbatim>\<open>ZeroDivisionError\<close> that the interpreter raises, on line 42
  (a float division) and on line 51 (a division of two integers).
\<close>

definition DivisionSingularity :: py_error where
  "DivisionSingularity = ZeroDivisionError ''float division by zero''"

definition ZeroAppliedCycles :: py_error where
  "ZeroAppliedCycles = ZeroDivisionError ''division by zero''"

text \<open>
  Two identifiers are case variants of each other when they have the same length and, at
  every position, the same character up to the case of an ASCII letter.
\<close>

definition upper_char :: "char \<Rightarrow> char" where
  "upper_char c =
     (case map_of (zip ascii_lowercase ascii_uppercase) c of Some u \<Rightarrow> u | None \<Rightarrow> c)"

definition case_variant :: "string \<Rightarrow> string \<Rightarrow> bool" where
  "case_variant s t =
     list_all2 (\<lambda>a b. b = a \<or> b = lower_char a \<or> b = upper_char a) s t"

text \<open>
  Reading a rendered number back, to state that the text of a position determines the
  position.
\<close>

definition digit_val :: "char \<Rightarrow> nat" where
  "digit_val c =
     (case map_of (zip ''0123456789'' [0, 1, 2, 3, 4, 5, 6, 7, 8, 9]) c of
        Some v \<Rightarrow> v | None \<Rightarrow> 0)"

definition nat_of_str :: "string \<Rightarrow> nat" where
  "nat_of_str s = foldl (\<lambda>acc c. 10 * acc + digit_val c) 0 s"

section \<open>Basic facts\<close>

declare str_nat.simps [simp del]

lemmas evaluator_defs =
  analyze_fatigue_def goodman_equivalent_stress_def sn_cycles_to_failure_def
  py_truediv_def py_int_truediv_def py_int_def py_ge_def material_props_def
  lower_def lower_char_def ascii_uppercase_def ascii_lowercase_def
  FatigueInput_init_def unsupported_message_def quoted_def

lemmas lookup_defs =
  material_props_def lower_def lower_char_def ascii_uppercase_def ascii_lowercase_def
  FatigueInput_init_def

subsection \<open>The table\<close>

lemma material_props_cases:
  assumes "material_props k = Some p"
  shows "(k = ''steel'' \<and> p = \<lparr>endurance_limit = 200, fatigue_strength_coeff = 900\<rparr>)
       \<or> (k = ''aluminum'' \<and> p = \<lparr>endurance_limit = 130, fatigue_strength_coeff = 620\<rparr>)"
  using assms by (auto simp: material_props_def split: if_splits)

lemma material_props_positive:
  assumes "material_props k = Some p"
  shows "0 < endurance_limit p" and "0 < fatigue_strength_coeff p"
  using material_props_cases [OF assms] by auto

subsection \<open>The stages of the evaluator\<close>

lemma goodman_singular:
  assumes "mean_stress d = fatigue_strength_coeff p" and "fatigue_strength_coeff p \<noteq> 0"
  shows "goodman_equivalent_stress d p = Inl (ZeroDivisionError ''float division by zero'')"
  using assms by (simp add: goodman_equivalent_stress_def py_truediv_def)

lemma goodman_regular:
  assumes "mean_stress d \<noteq> fatigue_strength_coeff p" and "fatigue_strength_coeff p \<noteq> 0"
  shows "goodman_equivalent_stress d p =
           Inr (stress_amplitude d / (1 - mean_stress d / fatigue_strength_coeff p))"
  using assms by (simp add: goodman_equivalent_stress_def py_truediv_def)

text \<open>With a positive endurance limit the life estimate never divides by zero.\<close>

lemma sn_cycles_total:
  assumes "0 < endurance_limit p"
  shows "sn_cycles_to_failure p es =
           Inr (if es \<le> endurance_limit p then 10000000
                else py_int ((fatigue_strength_coeff p / es) ^ 3 * 1000))"
  using assms by (simp add: sn_cycles_to_failure_def py_truediv_def)

lemma analyze_fatigue_supported:
  assumes "material_props (lower (material d)) = Some p"
  shows "analyze_fatigue d =
     (case goodman_equivalent_stress d p of
        Inl e \<Rightarrow> Inl e
      | Inr es \<Rightarrow>
         (case sn_cycles_to_failure p es of
            Inl e \<Rightarrow> Inl e
          | Inr ctf \<Rightarrow>
             (case py_int_truediv ctf (cycles d) of
                Inl e \<Rightarrow> Inl e
              | Inr margin \<Rightarrow>
                 (case py_ge margin (safety_factor d) of
                    Inl e \<Rightarrow> Inl e
                  | Inr safe \<Rightarrow>
                      Inr \<lparr>cycles_to_failure = ctf, safety_margin = margin,
                           is_safe = safe, analysis_method = method_label\<rparr>))))"
  using assms by (simp add: analyze_fatigue_def)

subsection \<open>The rounded evaluator\<close>

lemma py_int_truediv_exact: "py_int_truediv_fl exact_ops a b = py_int_truediv a b"
  by (simp add: py_int_truediv_fl_def py_int_truediv_def exact_ops_def)

lemma goodman_exact:
  "goodman_equivalent_stress_fl exact_ops d p = goodman_equivalent_stress d p"
  by (simp add: goodman_equivalent_stress_fl_def goodman_equivalent_stress_def
      py_truediv_fl_def py_truediv_def exact_ops_def)

lemma sn_cycles_exact: "sn_cycles_to_failure_fl exact_ops p es = sn_cycles_to_failure p es"
  by (simp add: sn_cycles_to_failure_fl_def sn_cycles_to_failure_def
      py_truediv_fl_def py_truediv_def exact_ops_def)

text \<open>The exact evaluator is the rounded one on the machine that does not round.\<close>

lemma analyze_fatigue_exact: "analyze_fatigue_fl exact_ops d = analyze_fatigue d"
  by (simp add: analyze_fatigue_fl_def analyze_fatigue_def goodman_exact sn_cycles_exact
      py_int_truediv_exact cong: option.case_cong sum.case_cong)

lemma sign_preserving_exact: "sign_preserving exact_ops"
  by (simp add: sign_preserving_def exact_ops_def)

lemma chop_nonneg: "0 \<le> x \<Longrightarrow> 0 \<le> chop x"
  by (simp add: chop_def)

lemma sign_preserving_coarse: "sign_preserving coarse_ops"
  by (simp add: sign_preserving_def coarse_ops_def chop_nonneg)

lemma analyze_fatigue_fl_supported:
  assumes "material_props (lower (material d)) = Some p"
  shows "analyze_fatigue_fl ops d =
     (case goodman_equivalent_stress_fl ops d p of
        Inl e \<Rightarrow> Inl e
      | Inr es \<Rightarrow>
         (case sn_cycles_to_failure_fl ops p es of
            Inl e \<Rightarrow> Inl e
          | Inr ctf \<Rightarrow>
             (case py_int_truediv_fl ops ctf (cycles d) of
                Inl e \<Rightarrow> Inl e
              | Inr margin \<Rightarrow>
                 (case py_ge margin (safety_factor d) of
                    Inl e \<Rightarrow> Inl e
                  | Inr safe \<Rightarrow>
                      Inr \<lparr>cycles_to_failure = ctf, safety_margin = margin,
                           is_safe = safe, analysis_method = method_label\<rparr>))))"
  using assms by (simp add: analyze_fatigue_fl_def)

lemma goodman_fl_result:
  assumes "goodman_equivalent_stress_fl ops d p = Inr es"
  shows "es = fl_truediv ops (stress_amplitude d)
                (fl_sub ops 1 (fl_truediv ops (mean_stress d) (fatigue_strength_coeff p)))"
  using assms
  by (auto simp: goodman_equivalent_stress_fl_def py_truediv_fl_def split: if_splits)

lemma sn_cycles_fl_total:
  assumes "0 < endurance_limit p"
  shows "sn_cycles_to_failure_fl ops p es =
           Inr (if es \<le> endurance_limit p then 10000000
                else py_int (fl_mul ops
                       (fl_pow ops (fl_truediv ops (fatigue_strength_coeff p) es) 3) 1000))"
  using assms by (simp add: sn_cycles_to_failure_fl_def py_truediv_fl_def)

text \<open>
  Rounding moves the life estimate. For steel with amplitude 375 and no mean stress the
  exact power law is \<open>2.4^3 * 1000 = 13824\<close>; the coarse machine arrives at 13813. (In
  double precision the product is 13823.999999999998 and the estimate 13823.)
\<close>

lemma chop_chain: "chop (chop (chop (12 / 5) ^ 3) * 1000) = 3536250 / 256"
proof -
  have a: "chop (12 / 5) = 2457 / 1024" by (simp add: chop_def)
  have b: "chop ((2457 / 1024) ^ 3) = 14145 / 1024" by (simp add: chop_def power3_eq_cube)
  have c: "chop (14145 / 1024 * 1000) = 3536250 / 256" by (simp add: chop_def)
  show ?thesis by (simp only: a b c)
qed

lemma chop_simple: "chop 0 = 0" "chop 1 = 1" "chop 375 = 375"
  by (simp_all add: chop_def)

lemma coarse_steel_375:
  "analyze_fatigue_fl coarse_ops (FatigueInput_init 375 0 1000 ''steel'' None) =
     Inr \<lparr>cycles_to_failure = 13813, safety_margin = 14144 / 1024, is_safe = True,
          analysis_method = method_label\<rparr>"
proof -
  have tbl: "material_props (lower (material (FatigueInput_init 375 0 1000 ''steel'' None)))
     = Some \<lparr>endurance_limit = 200, fatigue_strength_coeff = 900\<rparr>"
    by (simp add: lookup_defs)
  have es: "goodman_equivalent_stress_fl coarse_ops (FatigueInput_init 375 0 1000 ''steel'' None)
      \<lparr>endurance_limit = 200, fatigue_strength_coeff = 900\<rparr> = Inr 375"
    by (simp add: goodman_equivalent_stress_fl_def py_truediv_fl_def coarse_ops_def
        FatigueInput_init_def chop_simple)
  have ctf: "sn_cycles_to_failure_fl coarse_ops
      \<lparr>endurance_limit = 200, fatigue_strength_coeff = 900\<rparr> 375 = Inr 13813"
    by (simp add: sn_cycles_to_failure_fl_def py_truediv_fl_def coarse_ops_def chop_chain
        py_int_def)
  have margin: "py_int_truediv_fl coarse_ops 13813 1000 = Inr (14144 / 1024)"
    by (simp add: py_int_truediv_fl_def coarse_ops_def chop_def)
  have c: "cycles (FatigueInput_init 375 0 1000 ''steel'' None) = 1000"
    and f: "safety_factor (FatigueInput_init 375 0 1000 ''steel'' None) = Some 2"
    by (simp_all add: FatigueInput_init_def)
  show ?thesis
    by (simp add: analyze_fatigue_fl_supported [OF tbl] es ctf c f margin py_ge_def)
qed

lemma exact_steel_375:
  "analyze_fatigue (FatigueInput_init 375 0 1000 ''steel'' None) =
     Inr \<lparr>cycles_to_failure = 13824, safety_margin = 13824 / 1000, is_safe = True,
          analysis_method = method_label\<rparr>"
  by (simp add: evaluator_defs power3_eq_cube)

subsection \<open>Case folding\<close>

lemma lower_char_idem: "lower_char (lower_char c) = lower_char c"
  by (simp add: lower_char_def ascii_uppercase_def ascii_lowercase_def)

lemma lower_char_upper_char: "lower_char (upper_char c) = lower_char c"
  by (simp add: lower_char_def upper_char_def ascii_uppercase_def ascii_lowercase_def)

lemma case_variant_lower:
  assumes "case_variant s t"
  shows "lower s = lower t"
  using assms unfolding case_variant_def lower_def
  by (induction s t rule: list_all2_induct)
     (auto simp: lower_char_idem lower_char_upper_char)

subsection \<open>Rendering of positions\<close>

lemma digit_val_digit:
  assumes "n < 10"
  shows "digit_val (''0123456789'' ! n) = n"
proof -
  from assms have "n \<in> {0, 1, 2, 3, 4, 5, 6, 7, 8, 9}" by auto
  then show ?thesis by (auto simp: digit_val_def)
qed

lemma nat_of_str_str_nat: "nat_of_str (str_nat n) = n"
proof (induction n rule: str_nat.induct)
  case (1 n)
  show ?case
  proof (cases "n < 10")
    case True
    then show ?thesis
      by (subst str_nat.simps) (simp add: nat_of_str_def digit_val_digit)
  next
    case False
    then have ih: "nat_of_str (str_nat (n div 10)) = n div 10" using 1 by simp
    have "n mod 10 < 10" by simp
    then have dv: "digit_val (''0123456789'' ! (n mod 10)) = n mod 10"
      by (rule digit_val_digit)
    show ?thesis
      using False ih dv
      by (subst str_nat.simps) (simp add: nat_of_str_def)
  qed
qed

lemma str_nat_inject: "str_nat a = str_nat b \<Longrightarrow> a = b"
  by (metis nat_of_str_str_nat)

subsection \<open>The batch loop\<close>

lemma batch_loop_all_succeed:
  assumes "\<forall>d\<in>set xs. \<not> isl (analyze_fatigue d)"
  shows "batch_loop i xs acc = Inr (acc @ map (\<lambda>d. projr (analyze_fatigue d)) xs)"
  using assms
proof (induction xs arbitrary: i acc)
  case Nil
  then show ?case by simp
next
  case (Cons d ds)
  from Cons.prems obtain r where r: "analyze_fatigue d = Inr r"
    by (cases "analyze_fatigue d") auto
  from Cons.prems have rest: "\<forall>x\<in>set ds. \<not> isl (analyze_fatigue x)" by simp
  show ?case using r Cons.IH [OF rest] by simp
qed

lemma batch_loop_first_error:
  assumes "\<forall>d\<in>set pre. \<not> isl (analyze_fatigue d)"
    and "analyze_fatigue bad = Inl e"
  shows "batch_loop i (pre @ bad # post) acc =
           Inl (HTTPException 400
                  (''Error in dataset '' @ str_nat (i + length pre + 1) @ '': '' @ str_exc e))"
  using assms(1)
proof (induction pre arbitrary: i acc)
  case Nil
  then show ?case using assms(2) by simp
next
  case (Cons d ds)
  from Cons.prems obtain r where r: "analyze_fatigue d = Inr r"
    by (cases "analyze_fatigue d") auto
  from Cons.prems have rest: "\<forall>x\<in>set ds. \<not> isl (analyze_fatigue x)" by simp
  show ?case using r Cons.IH [OF rest, of "i + 1" "acc @ [r]"] by simp
qed

subsection \<open>Three evaluations used below\<close>

lemma steel_case_ok:
  "analyze_fatigue (FatigueInput_init 150 0 100000 ''steel'' (Some (Some 2))) =
     Inr \<lparr>cycles_to_failure = 10000000, safety_margin = 100, is_safe = True,
          analysis_method = method_label\<rparr>"
  by (simp add: evaluator_defs)

lemma titanium_case_fails:
  "analyze_fatigue (FatigueInput_init 150 0 100000 ''titanium'' None) =
     Inl (ValueError ''Material 'titanium' not supported'')"
  by (simp add: evaluator_defs)

lemma batch_position_two:
  "run_batch_analysis
     [FatigueInput_init 150 0 100000 ''steel'' (Some (Some 2)),
      FatigueInput_init 150 0 100000 ''titanium'' None,
      FatigueInput_init 150 0 100000 ''steel'' (Some (Some 2))]
   = Inl (HTTPException 400 ''Error in dataset 2: Material 'titanium' not supported'')"
  by (simp add: run_batch_analysis_def steel_case_ok titanium_case_fails str_nat.simps)

section \<open>Concrete scenario\<close>

text \<open>
  C1 (as the code computes it): for aluminum, stress amplitude 200, mean stress 50,
  50000 applied cycles and the safety factor omitted, the equivalent stress is
  \<open>200 / (1 - 50/620)\<close>, the life estimate is \<open>(57/20)^3 * 1000 = 23149.125\<close> truncated,
  that is 23149 cycles, the safety margin is \<open>23149 / 50000 = 0.46298\<close>, and the verdict
  is unsafe.
\<close>

theorem scenario_aluminum_result:
  "analyze_fatigue (FatigueInput_init 200 50 50000 ''aluminum'' None) =
     Inr \<lparr>cycles_to_failure = 23149, safety_margin = 23149 / 50000,
          is_safe = False, analysis_method = method_label\<rparr>"
  by (simp add: evaluator_defs power3_eq_cube)

text \<open>
  C1 as the specification words it fails: the life estimate for that input is not
  23120 cycles.
\<close>

theorem scenario_aluminum_not_23120:
  "cycles_to_failure
     (projr (analyze_fatigue (FatigueInput_init 200 50 50000 ''aluminum'' None))) \<noteq> 23120"
  by (simp add: evaluator_defs power3_eq_cube)

section \<open>Failures of the arithmetic\<close>

text \<open>
  C2: when the mean stress equals the fatigue strength coefficient of the material that the
  identifier resolves to, the evaluation fails with the division error of the Goodman
  correction, whatever the other fields are; no result is produced, and the endpoint
  answers 400 with that error's text.
\<close>

theorem singular_mean_stress_fails:
  assumes "material_props (lower (material d)) = Some p"
    and "mean_stress d = fatigue_strength_coeff p"
  shows "analyze_fatigue d = Inl DivisionSingularity
       \<and> run_fatigue_analysis d = Inl (HTTPException 400 ''float division by zero'')"
  using assms goodman_singular [of d p] material_props_positive [of "lower (material d)" p]
  by (simp add: analyze_fatigue_def run_fatigue_analysis_def DivisionSingularity_def)

theorem singular_mean_stress_fails_witness:
  "material_props (lower (material (FatigueInput_init 150 900 100000 ''Steel'' None)))
     = Some \<lparr>endurance_limit = 200, fatigue_strength_coeff = 900\<rparr>
   \<and> mean_stress (FatigueInput_init 150 900 100000 ''Steel'' None) = 900
   \<and> analyze_fatigue (FatigueInput_init 150 900 100000 ''Steel'' None)
       = Inl DivisionSingularity"
  using singular_mean_stress_fails [of "FatigueInput_init 150 900 100000 ''Steel'' None"
      "\<lparr>endurance_limit = 200, fatigue_strength_coeff = 900\<rparr>"]
  by (simp add: lookup_defs)

text \<open>
  C3 (as the code behaves): with a supported material, zero applied cycles and a mean
  stress different from the material's fatigue strength coefficient, the evaluation fails
  with the division error of the safety margin and produces no result.
\<close>

theorem zero_cycles_fails:
  assumes "material_props (lower (material d)) = Some p"
    and "mean_stress d \<noteq> fatigue_strength_coeff p"
    and "cycles d = 0"
  shows "analyze_fatigue d = Inl ZeroAppliedCycles"
  using assms goodman_regular [of d p] sn_cycles_total [of p]
    material_props_positive [of "lower (material d)" p]
  by (simp add: analyze_fatigue_def py_int_truediv_def ZeroAppliedCycles_def)

theorem zero_cycles_fails_witness:
  "material_props (lower (material (FatigueInput_init 150 0 0 ''steel'' None)))
     = Some \<lparr>endurance_limit = 200, fatigue_strength_coeff = 900\<rparr>
   \<and> mean_stress (FatigueInput_init 150 0 0 ''steel'' None) \<noteq> 900
   \<and> cycles (FatigueInput_init 150 0 0 ''steel'' None) = 0
   \<and> analyze_fatigue (FatigueInput_init 150 0 0 ''steel'' None) = Inl ZeroAppliedCycles"
  using zero_cycles_fails [of "FatigueInput_init 150 0 0 ''steel'' None"
      "\<lparr>endurance_limit = 200, fatigue_strength_coeff = 900\<rparr>"]
  by (simp add: lookup_defs)

text \<open>
  C3 as the specification words it fails: for steel with zero applied cycles and a mean
  stress of 900, the division of line 42 fails first, so the error is not the one of the
  zero cycle count.
\<close>

theorem zero_cycles_singular_counterexample:
  "analyze_fatigue (FatigueInput_init 150 900 0 ''steel'' None) \<noteq> Inl ZeroAppliedCycles"
  by (simp add: evaluator_defs ZeroAppliedCycles_def)

section \<open>The rule of the evaluator\<close>

text \<open>
  C6: whenever the evaluation returns a result, on any machine whose rounding keeps
  non-negative results non-negative, the life estimate follows from the equivalent stress
  that line 42 computed: it is 10000000 when that equivalent stress is at most the
  endurance limit (equality included), and otherwise the value that line 49 computed for
  \<open>(fatigue_strength_coeff / equivalent_stress) ** 3 * 1000\<close> with its fractional part
  dropped, which for that non-negative value is the integer floor. Here \<open>es\<close> and \<open>v\<close> are
  the rounded values the code holds, not the exact quotients.
\<close>

theorem life_estimate_rule_fl:
  assumes "analyze_fatigue_fl ops d = Inr r"
    and "material_props (lower (material d)) = Some p"
    and "sign_preserving ops"
    and "es = fl_truediv ops (stress_amplitude d)
                (fl_sub ops 1 (fl_truediv ops (mean_stress d) (fatigue_strength_coeff p)))"
    and "v = fl_mul ops (fl_pow ops (fl_truediv ops (fatigue_strength_coeff p) es) 3) 1000"
  shows "goodman_equivalent_stress_fl ops d p = Inr es
       \<and> cycles_to_failure r = (if es \<le> endurance_limit p then 10000000 else \<lfloor>v\<rfloor>)
       \<and> cycles_to_failure r = (if es \<le> endurance_limit p then 10000000 else py_int v)"
proof -
  have pos: "0 < endurance_limit p" "0 < fatigue_strength_coeff p"
    using material_props_positive [OF assms(2)] by simp_all
  note run = analyze_fatigue_fl_supported [OF assms(2), of ops]
  from run assms(1) obtain es' where g': "goodman_equivalent_stress_fl ops d p = Inr es'"
    by (cases "goodman_equivalent_stress_fl ops d p") auto
  then have g: "goodman_equivalent_stress_fl ops d p = Inr es"
    using goodman_fl_result [OF g'] assms(4) by simp
  have ctf: "sn_cycles_to_failure_fl ops p es = Inr (cycles_to_failure r)"
    using run assms(1) g by (auto split: sum.splits)
  then have c: "cycles_to_failure r = (if es \<le> endurance_limit p then 10000000 else py_int v)"
    using pos assms(5) by (auto simp: sn_cycles_fl_total)
  have "py_int v = \<lfloor>v\<rfloor>" if "\<not> es \<le> endurance_limit p"
  proof -
    have "0 < es" using that pos by simp
    then have "0 \<le> fl_truediv ops (fatigue_strength_coeff p) es"
      using pos assms(3) by (simp add: sign_preserving_def)
    then have "0 \<le> fl_pow ops (fl_truediv ops (fatigue_strength_coeff p) es) 3"
      using assms(3) by (simp add: sign_preserving_def)
    then have "0 \<le> v"
      using assms(3,5) by (simp add: sign_preserving_def)
    then show ?thesis by (simp add: py_int_def)
  qed
  with g c show ?thesis by simp
qed

text \<open>
  On the exact machine, steel with amplitude 400 and no mean stress: the power law gives
  11390.625, and the life estimate is 11390, not the nearest integer 11391.
\<close>

theorem life_estimate_rule_fl_witness:
  "analyze_fatigue_fl exact_ops (FatigueInput_init 400 0 1000 ''steel'' None)
     = Inr \<lparr>cycles_to_failure = 11390, safety_margin = 11390 / 1000, is_safe = True,
            analysis_method = method_label\<rparr>
   \<and> sign_preserving exact_ops
   \<and> ((900 / 400) ^ 3 * 1000 :: real) = 11390 + 5 / 8
   \<and> cycles_to_failure \<lparr>cycles_to_failure = 11390, safety_margin = 11390 / 1000,
        is_safe = True, analysis_method = method_label\<rparr>
      = (if (400::real) \<le> 200 then 10000000 else \<lfloor>(900 / 400) ^ 3 * 1000 :: real\<rfloor>)"
proof -
  have run: "analyze_fatigue_fl exact_ops (FatigueInput_init 400 0 1000 ''steel'' None)
     = Inr \<lparr>cycles_to_failure = 11390, safety_margin = 11390 / 1000, is_safe = True,
            analysis_method = method_label\<rparr>"
    by (simp add: analyze_fatigue_exact evaluator_defs power3_eq_cube)
  have tbl: "material_props (lower (material (FatigueInput_init 400 0 1000 ''steel'' None)))
     = Some \<lparr>endurance_limit = 200, fatigue_strength_coeff = 900\<rparr>"
    by (simp add: lookup_defs)
  show ?thesis
    using life_estimate_rule_fl [OF run tbl sign_preserving_exact refl refl] run
      sign_preserving_exact
    by (simp add: exact_ops_def FatigueInput_init_def power3_eq_cube)
qed

text \<open>
  C7: whenever the evaluation returns a result, the applied cycle count is not zero, the
  safety margin is the life estimate divided by the applied cycle count as real numbers,
  the safety factor is present and the verdict is \<open>safety_margin \<ge> safety_factor\<close>; an
  input built without a safety factor carries 2.0.
\<close>

theorem safety_margin_and_verdict:
  assumes "analyze_fatigue d = Inr r"
  shows "cycles d \<noteq> 0
       \<and> safety_margin r = real_of_int (cycles_to_failure r) / real_of_int (cycles d)
       \<and> safety_factor d \<noteq> None
       \<and> is_safe r = (safety_margin r \<ge> the (safety_factor d))
       \<and> safety_factor (FatigueInput_init sa ms n m None) = Some 2"
  using assms
  by (auto simp: analyze_fatigue_def py_int_truediv_def py_ge_def FatigueInput_init_def
      split: option.splits sum.splits if_splits)

text \<open>
  For the aluminum scenario the margin is \<open>23149 / 50000\<close>, where integer division would
  give 0.
\<close>

theorem safety_margin_and_verdict_witness:
  "analyze_fatigue (FatigueInput_init 200 50 50000 ''aluminum'' None)
     = Inr \<lparr>cycles_to_failure = 23149, safety_margin = 23149 / 50000,
          is_safe = False, analysis_method = method_label\<rparr>
   \<and> safety_margin \<lparr>cycles_to_failure = 23149, safety_margin = 23149 / 50000,
          is_safe = False, analysis_method = method_label\<rparr>
      = real_of_int 23149 / real_of_int 50000
   \<and> (23149::int) div 50000 = 0
   \<and> safety_factor (FatigueInput_init 200 50 50000 ''aluminum'' None) = Some 2"
  using safety_margin_and_verdict [of "FatigueInput_init 200 50 50000 ''aluminum'' None"
      "\<lparr>cycles_to_failure = 23149, safety_margin = 23149 / 50000,
          is_safe = False, analysis_method = method_label\<rparr>" 200 50 50000 "''aluminum''"]
  by (simp add: evaluator_defs power3_eq_cube)

text \<open>
  C10 (as the code behaves): with a supported material, a positive stress amplitude, a
  mean stress above the fatigue strength coefficient, a non-zero applied cycle count and a
  safety factor that is present, the equivalent stress is negative and the evaluation
  returns the cap of 10000000 cycles.
\<close>

theorem over_mean_stress_infinite_life:
  assumes "material_props (lower (material d)) = Some p"
    and "0 < stress_amplitude d"
    and "fatigue_strength_coeff p < mean_stress d"
    and "cycles d \<noteq> 0"
    and "safety_factor d = Some sf"
    and "es = stress_amplitude d / (1 - mean_stress d / fatigue_strength_coeff p)"
  shows "goodman_equivalent_stress d p = Inr es \<and> es < 0
       \<and> analyze_fatigue d =
           Inr \<lparr>cycles_to_failure = 10000000,
                safety_margin = 10000000 / real_of_int (cycles d),
                is_safe = (10000000 / real_of_int (cycles d) \<ge> sf),
                analysis_method = method_label\<rparr>"
proof -
  have pos: "0 < endurance_limit p" "0 < fatigue_strength_coeff p"
    using material_props_positive [OF assms(1)] by simp_all
  have g: "goodman_equivalent_stress d p = Inr es"
    using pos assms(3,6) by (simp add: goodman_regular)
  have "1 - mean_stress d / fatigue_strength_coeff p < 0"
    using pos assms(3) by simp
  then have neg: "es < 0"
    using assms(2,6) by (simp add: divide_pos_neg)
  then have "es \<le> endurance_limit p" using pos by simp
  then have c: "sn_cycles_to_failure p es = Inr 10000000"
    by (simp add: sn_cycles_to_failure_def)
  show ?thesis
    using g neg c assms(4,5)
    by (simp add: analyze_fatigue_supported [OF assms(1)] py_int_truediv_def py_ge_def)
qed

theorem over_mean_stress_infinite_life_witness:
  "analyze_fatigue (FatigueInput_init 100 1000 5000000 ''steel'' None) =
     Inr \<lparr>cycles_to_failure = 10000000, safety_margin = 2, is_safe = True,
          analysis_method = method_label\<rparr>
   \<and> (100 / (1 - 1000 / 900) :: real) = - 900"
  using over_mean_stress_infinite_life [of "FatigueInput_init 100 1000 5000000 ''steel'' None"
      "\<lparr>endurance_limit = 200, fatigue_strength_coeff = 900\<rparr>" 2 "-900"]
  by (simp add: lookup_defs)

text \<open>
  C10 as it is worded fails: for steel with amplitude 100, mean stress 1000 and zero
  applied cycles the evaluation returns nothing; it fails on the safety margin.
\<close>

theorem over_mean_stress_zero_cycles_counterexample:
  "analyze_fatigue (FatigueInput_init 100 1000 0 ''steel'' None) = Inl ZeroAppliedCycles"
  by (simp add: evaluator_defs ZeroAppliedCycles_def)

section \<open>Material lookup\<close>

text \<open>
  C8: the lookup does not depend on the case of the identifier. If \<open>m2\<close> is a case variant
  of \<open>m1\<close>, both resolve to the same entry of the table (or both to none), an input with a
  supported material evaluates to the same outcome under either spelling, and in every
  case one spelling yields a result exactly when the other yields that same result.
\<close>

theorem material_lookup_case_insensitive:
  assumes "case_variant m1 m2"
  shows "material_props (lower m1) = material_props (lower m2)
       \<and> (material_props (lower m1) \<noteq> None \<longrightarrow>
            analyze_fatigue (d\<lparr>material := m1\<rparr>) = analyze_fatigue (d\<lparr>material := m2\<rparr>))
       \<and> (analyze_fatigue (d\<lparr>material := m1\<rparr>) = Inr r \<longleftrightarrow>
            analyze_fatigue (d\<lparr>material := m2\<rparr>) = Inr r)"
proof -
  have eq: "lower m1 = lower m2" by (rule case_variant_lower [OF assms])
  have same: "analyze_fatigue (d\<lparr>material := m1\<rparr>) = analyze_fatigue (d\<lparr>material := m2\<rparr>)"
    if "material_props (lower m1) = Some p" for p
    using that eq
    by (simp add: analyze_fatigue_def goodman_equivalent_stress_def cong: sum.case_cong)
  have result: "analyze_fatigue (d\<lparr>material := m1\<rparr>) = Inr r \<longleftrightarrow>
           analyze_fatigue (d\<lparr>material := m2\<rparr>) = Inr r"
  proof (cases "material_props (lower m1)")
    case None
    then show ?thesis using eq by (simp add: analyze_fatigue_def)
  next
    case (Some p)
    then show ?thesis using same by simp
  qed
  from eq same result show ?thesis by auto
qed

theorem material_lookup_case_insensitive_witness:
  "case_variant ''STEEL'' ''Steel''
   \<and> material_props (lower ''STEEL'') = material_props (lower ''Steel'')
   \<and> material_props (lower ''Steel'') = material_props ''steel''
   \<and> analyze_fatigue ((FatigueInput_init 150 0 100000 ''steel'' None)\<lparr>material := ''STEEL''\<rparr>)
     = analyze_fatigue ((FatigueInput_init 150 0 100000 ''steel'' None)\<lparr>material := ''Steel''\<rparr>)"
proof -
  have h: "case_variant ''STEEL'' ''Steel''"
    by (simp add: case_variant_def lower_char_def upper_char_def ascii_uppercase_def
        ascii_lowercase_def)
  have supported: "material_props (lower ''STEEL'') \<noteq> None"
    by (simp add: lookup_defs)
  have "lower ''Steel'' = ''steel''"
    by (simp add: lookup_defs)
  then show ?thesis
    using h supported
      material_lookup_case_insensitive [OF h, of "FatigueInput_init 150 0 100000 ''steel'' None"]
    by simp
qed

text \<open>
  C9: when the lower-cased identifier is not a key of the table, the evaluation fails with
  the \<^verbatim>\<open>ValueError\<close> of line 37, whose message quotes the identifier exactly as the caller
  wrote it.
\<close>

theorem unsupported_material_fails:
  assumes "material_props (lower (material d)) = None"
  shows "analyze_fatigue d =
           Inl (ValueError (''Material '' @ quoted (material d) @ '' not supported''))"
  using assms by (simp add: analyze_fatigue_def unsupported_message_def)

theorem unsupported_material_fails_witness:
  "material_props (lower (material (FatigueInput_init 150 0 1000 ''Titanium'' None))) = None
   \<and> analyze_fatigue (FatigueInput_init 150 0 1000 ''Titanium'' None)
       = Inl (ValueError ''Material 'Titanium' not supported'')"
  using unsupported_material_fails [of "FatigueInput_init 150 0 1000 ''Titanium'' None"]
  by (simp add: lookup_defs quoted_def)

section \<open>Batch evaluation\<close>

text \<open>
  C4: when some case of the batch fails, the batch fails at the first such case: the cases
  before it all succeed, and the answer is the 400 error whose text gives the position of
  that case counted from 1 and the text of its error. The answer is an error alone, so no
  result of an earlier case is returned. (By \<open>str_nat_inject\<close> two positions never
  have the same text.)
\<close>

theorem batch_fail_fast:
  assumes "\<exists>d\<in>set xs. isl (analyze_fatigue d)"
  shows "\<exists>pre bad post e.
           xs = pre @ bad # post
         \<and> (\<forall>d\<in>set pre. \<not> isl (analyze_fatigue d))
         \<and> analyze_fatigue bad = Inl e
         \<and> run_batch_analysis xs =
             Inl (HTTPException 400
                    (''Error in dataset '' @ str_nat (length pre + 1) @ '': '' @ str_exc e))"
proof -
  from assms obtain pre bad post
    where split: "xs = pre @ bad # post" "isl (analyze_fatigue bad)"
      "\<forall>d\<in>set pre. \<not> isl (analyze_fatigue d)"
    using split_list_first_prop [of xs "\<lambda>d. isl (analyze_fatigue d)"] by blast
  from split(2) obtain e where e: "analyze_fatigue bad = Inl e"
    by (cases "analyze_fatigue bad") auto
  have "run_batch_analysis xs =
          Inl (HTTPException 400
                 (''Error in dataset '' @ str_nat (length pre + 1) @ '': '' @ str_exc e))"
    using batch_loop_first_error [OF split(3) e, of 0 post "[]"] split(1)
    by (simp add: run_batch_analysis_def)
  with split(1,3) e show ?thesis by blast
qed

theorem batch_fail_fast_witness:
  "(\<exists>d\<in>set [FatigueInput_init 150 0 100000 ''steel'' (Some (Some 2)),
      FatigueInput_init 150 0 100000 ''titanium'' None,
      FatigueInput_init 150 0 100000 ''steel'' (Some (Some 2))]. isl (analyze_fatigue d))
   \<and> (\<exists>pre bad post e.
        [FatigueInput_init 150 0 100000 ''steel'' (Some (Some 2)),
         FatigueInput_init 150 0 100000 ''titanium'' None,
         FatigueInput_init 150 0 100000 ''steel'' (Some (Some 2))] = pre @ bad # post
      \<and> (\<forall>d\<in>set pre. \<not> isl (analyze_fatigue d))
      \<and> analyze_fatigue bad = Inl e
      \<and> Inl (HTTPException 400 ''Error in dataset 2: Material 'titanium' not supported'') =
         (Inl (HTTPException 400
                (''Error in dataset '' @ str_nat (length pre + 1) @ '': '' @ str_exc e))
           :: http_error + FatigueResult list))"
proof -
  have h: "\<exists>d\<in>set [FatigueInput_init 150 0 100000 ''steel'' (Some (Some 2)),
      FatigueInput_init 150 0 100000 ''titanium'' None,
      FatigueInput_init 150 0 100000 ''steel'' (Some (Some 2))]. isl (analyze_fatigue d)"
    by (simp add: titanium_case_fails)
  show ?thesis
    using h batch_fail_fast [OF h] by (simp add: batch_position_two)
qed

text \<open>
  C5: when every case of the batch evaluates to a result, the batch returns a list of as
  many results as there are cases, and the result at each index is the one that the single
  evaluation of the case at that index gives.
\<close>

theorem batch_all_succeed:
  assumes "\<forall>d\<in>set xs. \<not> isl (analyze_fatigue d)"
  shows "\<exists>rs. run_batch_analysis xs = Inr rs \<and> length rs = length xs
            \<and> (\<forall>i<length xs. analyze_fatigue (xs ! i) = Inr (rs ! i))"
proof -
  let ?rs = "map (\<lambda>d. projr (analyze_fatigue d)) xs"
  have run: "run_batch_analysis xs = Inr ?rs"
    using batch_loop_all_succeed [OF assms, of 0 "[]"] by (simp add: run_batch_analysis_def)
  have "analyze_fatigue (xs ! i) = Inr (?rs ! i)" if "i < length xs" for i
  proof -
    from that have "xs ! i \<in> set xs" by simp
    with assms have "\<not> isl (analyze_fatigue (xs ! i))" by blast
    then show ?thesis using that by (cases "analyze_fatigue (xs ! i)") auto
  qed
  with run show ?thesis by auto
qed

theorem batch_all_succeed_witness:
  "\<not> isl (analyze_fatigue (FatigueInput_init 150 0 100000 ''steel'' (Some (Some 2))))
   \<and> (\<exists>rs. run_batch_analysis
              [FatigueInput_init 150 0 100000 ''steel'' (Some (Some 2)),
               FatigueInput_init 150 0 100000 ''steel'' (Some (Some 2))] = Inr rs
          \<and> length rs = 2
          \<and> analyze_fatigue (FatigueInput_init 150 0 100000 ''steel'' (Some (Some 2)))
              = Inr (rs ! 1))"
proof -
  have h: "\<forall>d\<in>set [FatigueInput_init 150 0 100000 ''steel'' (Some (Some 2)),
              FatigueInput_init 150 0 100000 ''steel'' (Some (Some 2))].
        \<not> isl (analyze_fatigue d)"
    by (simp add: steel_case_ok)
  show ?thesis
    using h batch_all_succeed [OF h] by auto
qed

end
